theory Spec2Isabelle
  imports Main
begin

section \<open>Strings\<close>

text \<open>
  A Python \<open>str\<close> is modelled as an Isabelle \<open>string\<close>: a list of characters whose code
  points lie below 256. \<open>str.lower\<close>, \<open>str.strip\<close> and \<open>str.rfind\<close> are given with the
  meaning they have on such strings.
\<close>

definition lower_char :: "char \<Rightarrow> char" where
  "lower_char c =
     (let n = (of_char c :: nat)
      in if (65 \<le> n \<and> n \<le> 90) \<or> (192 \<le> n \<and> n \<le> 222 \<and> n \<noteq> 215)
         then char_of (n + 32) else c)"

definition lower :: "string \<Rightarrow> string" where
  "lower s = map lower_char s"

definition isspace :: "char \<Rightarrow> bool" where
  "isspace c =
     (let n = (of_char c :: nat)
      in (9 \<le> n \<and> n \<le> 13) \<or> (28 \<le> n \<and> n \<le> 32) \<or> n = 133 \<or> n = 160)"

definition strip :: "string \<Rightarrow> string" where
  "strip s = rev (dropWhile isspace (rev (dropWhile isspace s)))"

primrec rfind_from :: "char \<Rightarrow> string \<Rightarrow> int \<Rightarrow> int \<Rightarrow> int" where
  "rfind_from c [] i found = found"
| "rfind_from c (x # xs) i found = rfind_from c xs (i + 1) (if x = c then i else found)"

text \<open>\<open>p.rfind(c)\<close>: the index of the last \<open>c\<close> in \<open>p\<close>, or \<open>-1\<close>.\<close>

definition rfind :: "string \<Rightarrow> char \<Rightarrow> int" where
  "rfind p c = rfind_from c p 0 (- 1)"

definition nl :: string where
  "nl = [CHR 0x0A]"

subsection \<open>\<open>os.path.splitext\<close>\<close>

text \<open>
  \<open>os.path.splitext\<close> as \<open>posixpath\<close> has it: \<open>genericpath._splitext\<close> with the
  separator \<open>/\<close>, no alternative separator and the extension separator \<open>.\<close>. First
  its loop, which looks for a character other than a dot between the last separator and
  the last dot; \<open>Some\<close> is its early \<open>return\<close>, \<open>None\<close> is the loop running out.
\<close>

function skip_leading_dots :: "string \<Rightarrow> int \<Rightarrow> int \<Rightarrow> (string \<times> string) option" where
  "skip_leading_dots p filenameIndex dotIndex =
     (if filenameIndex < dotIndex
      then (if take 1 (drop (nat filenameIndex) p) \<noteq> ''.''
            then Some (take (nat dotIndex) p, drop (nat dotIndex) p)
            else skip_leading_dots p (filenameIndex + 1) dotIndex)
      else None)"
  by pat_completeness auto
termination
  by (relation "measure (\<lambda>(p, i, d). nat (d - i))") auto

declare skip_leading_dots.simps [simp del]

definition splitext :: "string \<Rightarrow> string \<times> string" where
  "splitext p =
     (let sepIndex = rfind p (CHR ''/'');
          dotIndex = rfind p (CHR ''.'')
      in if dotIndex > sepIndex
         then (case skip_leading_dots p (sepIndex + 1) dotIndex of
                 Some r \<Rightarrow> r
               | None \<Rightarrow> (p, []))
         else (p, []))"

section \<open>Exceptions, output and external calls\<close>

text \<open>
  An exception is its class, as far as a handler of the programs tells classes apart, and
  the text \<open>str(e)\<close>. All of them are subclasses of \<open>Exception\<close>; an interrupt reaches the
  programs only through \<open>input()\<close> (see \<open>user_input\<close>).
\<close>

datatype exn_class = UnicodeDecodeError | TypeError | FileNotFoundError | EOFError | OtherException

datatype exn = Exn exn_class string

fun exn_kind :: "exn \<Rightarrow> exn_class" where
  "exn_kind (Exn k m) = k"

fun str_exn :: "exn \<Rightarrow> string" where
  "str_exn (Exn k m) = m"

text \<open>
  \<open>QueryParam(mode=..., stream=...)\<close> of the LightRAG library; \<open>qp_stream = None\<close> is a
  call that leaves \<open>stream\<close> out.
\<close>

record query_param =
  qp_mode :: string
  qp_stream :: "bool option"

datatype level = INFO | WARNING | ERROR

text \<open>
  One constructor for each \<open>logger\<close> call of the functions modelled, carrying the values
  its message interpolates. common_rag.py: \<open>Store_empty\<close> (line 46), \<open>Loading_existing\<close>
  (55), \<open>Query_error\<close> (109), \<open>Fatal_error\<close> (131, and lightrag.py 92). lightrag.py:
  \<open>Loading_docs_from\<close> (55). lightrag-demo.py: \<open>Created_directory\<close> (40),
  \<open>Stream_print_error\<close> (121), \<open>Folder_missing\<close> (133), \<open>Place_docs_hint\<close> (134),
  \<open>Load_started\<close> (140), \<open>File_empty\<close> (155), \<open>File_loaded\<close> (161), \<open>Encoding_error\<close>
  (164), \<open>File_error\<close> (167), \<open>Load_finished\<close> with the loaded and the failed count (170),
  \<open>Query_failed\<close> (190), \<open>Trying_non_stream\<close> (194), \<open>Non_stream_failed\<close> (199),
  \<open>Initializing\<close> (235), \<open>Init_failed\<close> (239), \<open>Nothing_loaded\<close> (246).
\<close>

datatype msg =
    Store_empty
  | Loading_existing
  | Query_error exn
  | Fatal_error exn
  | Loading_docs_from string
  | Created_directory string
  | Stream_print_error exn
  | Folder_missing string
  | Place_docs_hint string
  | Load_started string
  | File_empty string
  | File_loaded string nat
  | Encoding_error string
  | File_error string exn
  | Load_finished nat nat
  | Query_failed exn
  | Trying_non_stream
  | Non_stream_failed exn
  | Initializing
  | Init_failed
  | Nothing_loaded

text \<open>
  The trace of a run, in program order: what is logged, what is written to standard output
  (\<open>Print\<close> carries the exact text written; \<open>Print_query_failed\<close> is the fixed notice of
  lightrag-demo.py line 200), and the calls made to the external collaborators:
  \<open>rag.insert\<close>, \<open>rag.query\<close>, \<open>collection.count\<close>, \<open>SimpleDirectoryReader.load_data\<close>,
  \<open>VectorStoreIndex.from_documents\<close>, \<open>VectorStoreIndex.from_vector_store\<close> and
  \<open>query_engine.query\<close>.
\<close>

datatype event =
    Log level msg
  | Print string
  | Print_query_failed
  | Rag_insert string
  | Rag_query string query_param
  | Collection_count
  | Load_data
  | From_documents "string list"
  | From_vector_store
  | Engine_query string

text \<open>
  A directory entry: its name, whether \<open>os.path.isfile\<close> holds of it, and what opening it
  with \<open>encoding="utf-8"\<close> and reading it gives (the text, or the exception raised).
\<close>

record entry =
  entry_name :: string
  isfile :: bool
  content :: "exn + string"

text \<open>
  What a path is: absent (\<open>os.path.exists\<close> is false), a directory with its entries in
  the order of \<open>os.listdir\<close>, or something that exists and on which \<open>os.listdir\<close> raises.
\<close>

datatype path_state = Missing | Listing "entry list" | Unlistable exn

text \<open>
  A line typed at \<open>input()\<close>, or an interrupt there; the end of the list is the end of
  input, where \<open>input()\<close> raises \<open>EOFError\<close>.
\<close>

datatype user_input = Line string | Ctrl_C

definition DOCS_DIR :: string where
  "DOCS_DIR = ''./docs''"

definition WORKING_DIR :: string where
  "WORKING_DIR = ''./dickens2''"

definition eof_error :: exn where
  "eof_error = Exn EOFError ''EOF when reading a line''"

section \<open>lightrag-demo.py\<close>

definition SUPPORTED_FILE_EXTENSIONS :: "string set" where
  "SUPPORTED_FILE_EXTENSIONS = {''.txt'', ''.md'', ''.doc'', ''.docx'', ''.pdf''}"

definition is_supported_file :: "string \<Rightarrow> bool" where
  "is_supported_file filename =
     (let ext = snd (splitext (lower filename)) in ext \<in> SUPPORTED_FILE_EXTENSIONS)"

text \<open>
  One round of the loop of \<open>ensure_directories\<close> (lines 38 to 40). \<open>makedirs\<close> is
  \<open>os.makedirs(directory, exist_ok=True)\<close> on a path for which \<open>os.path.exists\<close> is false:
  \<open>None\<close> when it creates the directory, or the exception it raises (the path is a dangling
  link, the parent cannot be written). An exception leaves the function; a directory just
  created has no entries.
\<close>

definition ensure_directory ::
  "(string \<Rightarrow> exn option) \<Rightarrow> string \<Rightarrow> path_state \<Rightarrow> (exn + path_state) \<times> event list" where
  "ensure_directory makedirs directory st =
     (if st = Missing
      then (case makedirs directory of
              Some e \<Rightarrow> (Inl e, [])
            | None \<Rightarrow> (Inr (Listing []), [Log INFO (Created_directory directory)]))
      else (Inr st, []))"

text \<open>
  \<open>ensure_directories\<close> walks \<open>[WORKING_DIR, DOCS_DIR]\<close>; the states of the two paths go in
  and come out, unless \<open>os.makedirs\<close> raises on the way.
\<close>

definition ensure_directories ::
  "(string \<Rightarrow> exn option) \<Rightarrow> path_state \<Rightarrow> path_state
     \<Rightarrow> (exn + path_state \<times> path_state) \<times> event list" where
  "ensure_directories makedirs working docs =
     (case ensure_directory makedirs WORKING_DIR working of
        (Inl e, evs1) \<Rightarrow> (Inl e, evs1)
      | (Inr working', evs1) \<Rightarrow>
          (case ensure_directory makedirs DOCS_DIR docs of
             (Inl e, evs2) \<Rightarrow> (Inl e, evs1 @ evs2)
           | (Inr docs', evs2) \<Rightarrow> (Inr (working', docs'), evs1 @ evs2)))"

text \<open>
  \<open>print_stream\<close>: an asynchronous generator is the chunks it yields and, when it fails
  after them, the exception it raises. The handler inside \<open>print_stream\<close> logs it, so the
  function always returns.
\<close>

definition demo_print_stream :: "string list \<Rightarrow> exn option \<Rightarrow> event list" where
  "demo_print_stream chunks failure =
     map Print chunks @
     (case failure of
        None \<Rightarrow> [Print nl]
      | Some e \<Rightarrow> [Log ERROR (Stream_print_error e)])"

text \<open>The variables of the loop of \<open>load_docs_from_folder\<close>, the \<open>rag\<close> object and the trace.\<close>

record 'r load_acc =
  loaded_count :: nat
  failed_count :: nat
  acc_rag :: 'r
  acc_trace :: "event list"

text \<open>The two \<open>except\<close> clauses of the loop body (lines 163 to 168).\<close>

definition on_load_error :: "string \<Rightarrow> exn \<Rightarrow> 'r load_acc \<Rightarrow> 'r load_acc" where
  "on_load_error filename e s =
     (if exn_kind e = UnicodeDecodeError
      then s\<lparr>acc_trace := acc_trace s @ [Log WARNING (Encoding_error filename)],
             failed_count := failed_count s + 1\<rparr>
      else s\<lparr>acc_trace := acc_trace s @ [Log ERROR (File_error filename e)],
             failed_count := failed_count s + 1\<rparr>)"

text \<open>
  One iteration of the loop (lines 143 to 168). \<open>ins\<close> is \<open>rag.insert\<close>: it takes the text
  and the \<open>rag\<close> object and gives the exception it raised, if any, and the object after
  the call.
\<close>

definition demo_load_file ::
  "(string \<Rightarrow> 'r \<Rightarrow> exn option \<times> 'r) \<Rightarrow> entry \<Rightarrow> 'r load_acc \<Rightarrow> 'r load_acc" where
  "demo_load_file ins ent s =
     (if \<not> isfile ent \<or> \<not> is_supported_file (entry_name ent) then s
      else
        (case content ent of
           Inl e \<Rightarrow> on_load_error (entry_name ent) e s
         | Inr c \<Rightarrow>
             if strip c = []
             then s\<lparr>acc_trace := acc_trace s @ [Log WARNING (File_empty (entry_name ent))]\<rparr>
             else
               (case ins c (acc_rag s) of
                  (Some e, rag') \<Rightarrow>
                    on_load_error (entry_name ent) e
                      (s\<lparr>acc_rag := rag', acc_trace := acc_trace s @ [Rag_insert c]\<rparr>)
                | (None, rag') \<Rightarrow>
                    s\<lparr>acc_rag := rag',
                      loaded_count := loaded_count s + 1,
                      acc_trace := acc_trace s @
                        [Rag_insert c, Log INFO (File_loaded (entry_name ent) (length c))]\<rparr>)))"

definition demo_load_docs_from_folder ::
  "(string \<Rightarrow> 'r \<Rightarrow> exn option \<times> 'r) \<Rightarrow> string \<Rightarrow> path_state \<Rightarrow> 'r
     \<Rightarrow> (exn + nat) \<times> event list \<times> 'r" where
  "demo_load_docs_from_folder ins folder_path st rag =
     (case st of
        Missing \<Rightarrow>
          (Inr 0,
           [Log WARNING (Folder_missing folder_path), Log INFO (Place_docs_hint folder_path)],
           rag)
      | Unlistable e \<Rightarrow> (Inl e, [Log INFO (Load_started folder_path)], rag)
      | Listing ents \<Rightarrow>
          (let s = fold (demo_load_file ins) ents
                     \<lparr>loaded_count = 0, failed_count = 0, acc_rag = rag,
                      acc_trace = [Log INFO (Load_started folder_path)]\<rparr>
           in (Inr (loaded_count s),
               acc_trace s @ [Log INFO (Load_finished (loaded_count s) (failed_count s))],
               acc_rag s)))"

text \<open>
  What \<open>rag.query\<close> returns: an asynchronous generator (its chunks, and the exception it
  raises after them, if any), or any other value, known by the text \<open>print\<close> writes for
  it.
\<close>

datatype qresult = Async_gen "string list" "exn option" | Value_result string

fun str_result :: "qresult \<Rightarrow> string" where
  "str_result (Value_result v) = v"
| "str_result (Async_gen chunks failure) = ''<async_generator object>''"

text \<open>
  \<open>query_rag_async\<close>. \<open>rq\<close> is \<open>rag.query\<close>: it takes the query, the parameter and the
  \<open>rag\<close> object and gives the exception raised or the value returned, and the object
  after the call.
\<close>

definition demo_query_rag_async ::
  "(string \<Rightarrow> query_param \<Rightarrow> 'r \<Rightarrow> (exn + qresult) \<times> 'r) \<Rightarrow> string \<Rightarrow> 'r
     \<Rightarrow> event list \<times> 'r" where
  "demo_query_rag_async rq query rag =
     (let param = \<lparr>qp_mode = ''global'', qp_stream = Some True\<rparr>;
          (resp, rag1) = rq query param rag
      in case resp of
           Inr (Async_gen chunks failure) \<Rightarrow>
             (Rag_query query param # demo_print_stream chunks failure, rag1)
         | Inr (Value_result v) \<Rightarrow> ([Rag_query query param, Print (v @ nl)], rag1)
         | Inl e \<Rightarrow>
             (let param2 = \<lparr>qp_mode = ''global'', qp_stream = None\<rparr>;
                  (resp2, rag2) = rq query param2 rag1
              in ([Rag_query query param, Log ERROR (Query_failed e), Log INFO Trying_non_stream,
                   Rag_query query param2] @
                  (case resp2 of
                     Inr r \<Rightarrow> [Print (str_result r @ nl)]
                   | Inl e2 \<Rightarrow> [Log ERROR (Non_stream_failed e2), Print_query_failed]),
                  rag2)))"


text \<open>
  How the start of \<open>main\<close> (lines 231 to 246) ends: it returned because initialisation
  failed, an exception left it, or it goes on to the session loop with the document count
  and the \<open>rag\<close> object.
\<close>

datatype 'r startup = Startup_exit | Startup_raised exn | Startup_ready nat 'r

text \<open>
  \<open>main\<close> up to the session loop. \<open>init\<close> is the value of \<open>initialize_rag()\<close>: \<open>None\<close>, or
  the \<open>rag\<close> object bound to the store kept under \<open>WORKING_DIR\<close>. An exception of
  \<open>ensure_directories\<close> or of the loader leaves \<open>main\<close>.
\<close>

definition demo_main_startup ::
  "(string \<Rightarrow> 'r \<Rightarrow> exn option \<times> 'r) \<Rightarrow> (string \<Rightarrow> exn option) \<Rightarrow> path_state \<Rightarrow> path_state
     \<Rightarrow> 'r option \<Rightarrow> 'r startup \<times> event list" where
  "demo_main_startup ins makedirs working docs init =
     (case ensure_directories makedirs working docs of
        (Inl e, evs0) \<Rightarrow> (Startup_raised e, evs0)
      | (Inr (working', docs'), evs0) \<Rightarrow>
          (let evs1 = evs0 @ [Log INFO Initializing]
           in case init of
                None \<Rightarrow> (Startup_exit, evs1 @ [Log ERROR Init_failed])
              | Some rag \<Rightarrow>
                  (case demo_load_docs_from_folder ins DOCS_DIR docs' rag of
                     (Inl e, evs2, rag') \<Rightarrow> (Startup_raised e, evs1 @ evs2)
                   | (Inr doc_count, evs2, rag') \<Rightarrow>
                       (Startup_ready doc_count rag',
                        evs1 @ evs2 @
                        (if doc_count = 0 then [Log WARNING Nothing_loaded] else [])))))"

section \<open>lightrag.py\<close>


text \<open>The loop of \<open>load_docs_from_folder\<close>: nothing is caught, the first exception ends it.\<close>

fun lr_load_loop ::
  "(string \<Rightarrow> 'r \<Rightarrow> exn option \<times> 'r) \<Rightarrow> entry list \<Rightarrow> 'r \<Rightarrow> exn option \<times> event list \<times> 'r" where
  "lr_load_loop ins [] rag = (None, [], rag)"
| "lr_load_loop ins (ent # ents) rag =
     (if isfile ent
      then (case content ent of
              Inl e \<Rightarrow> (Some e, [], rag)
            | Inr c \<Rightarrow>
                (case ins c rag of
                   (Some e, rag') \<Rightarrow> (Some e, [Rag_insert c], rag')
                 | (None, rag') \<Rightarrow>
                     (let (r, evs, rag'') = lr_load_loop ins ents rag'
                      in (r, Rag_insert c # evs, rag''))))
      else lr_load_loop ins ents rag)"

definition lr_load_docs_from_folder ::
  "(string \<Rightarrow> 'r \<Rightarrow> exn option \<times> 'r) \<Rightarrow> string \<Rightarrow> path_state \<Rightarrow> 'r
     \<Rightarrow> exn option \<times> event list \<times> 'r" where
  "lr_load_docs_from_folder ins folder_path st rag =
     (case st of
        Missing \<Rightarrow>
          (Some (Exn FileNotFoundError
                   (''[Errno 2] No such file or directory: '' @ [CHR 0x27] @ folder_path @ [CHR 0x27])),
           [Log INFO (Loading_docs_from folder_path)], rag)
      | Unlistable e \<Rightarrow> (Some e, [Log INFO (Loading_docs_from folder_path)], rag)
      | Listing ents \<Rightarrow>
          (let (r, evs, rag') = lr_load_loop ins ents rag
           in (r, Log INFO (Loading_docs_from folder_path) # evs, rag')))"




section \<open>common\_rag.py\<close>

text \<open>
  What \<open>initialize_or_load_vector_store\<close> meets outside the program: whether opening the
  client and the collection (lines 40 to 42) raises, the number \<open>collection.count()\<close>
  returns, what \<open>SimpleDirectoryReader(DOCS_DIR).load_data()\<close> gives (a document is its
  text), and what the two constructors of the index give.
\<close>

record 'i store_env =
  open_collection :: "exn option"
  collection_count :: nat
  load_data :: "exn + string list"
  from_documents :: "string list \<Rightarrow> exn + 'i"
  from_vector_store :: "exn + 'i"

definition initialize_or_load_vector_store :: "'i store_env \<Rightarrow> (exn + 'i) \<times> event list" where
  "initialize_or_load_vector_store env =
     (case open_collection env of
        Some e \<Rightarrow> (Inl e, [])
      | None \<Rightarrow>
          if collection_count env = 0
          then (case load_data env of
                  Inl e \<Rightarrow> (Inl e, [Collection_count, Log INFO Store_empty, Load_data])
                | Inr documents \<Rightarrow>
                    (from_documents env documents,
                     [Collection_count, Log INFO Store_empty, Load_data,
                      From_documents documents]))
          else (from_vector_store env,
                [Collection_count, Log INFO Loading_existing, From_vector_store]))"

text \<open>
  A query engine is the index it was made from and the keyword arguments handed to
  \<open>index.as_query_engine\<close>.
\<close>

record 'i query_engine =
  engine_index :: 'i
  similarity_top_k :: int
  retriever_mode :: string
  streaming :: bool
  response_mode :: string

text \<open>An argument left out (\<open>None\<close>) takes the default of the \<open>def\<close> line.\<close>

definition create_query_engine :: "'i \<Rightarrow> int option \<Rightarrow> string option \<Rightarrow> 'i query_engine" where
  "create_query_engine index k mode =
     \<lparr>engine_index = index,
      similarity_top_k = (case k of None \<Rightarrow> 5 | Some v \<Rightarrow> v),
      retriever_mode = (case mode of None \<Rightarrow> ''embedding'' | Some m \<Rightarrow> m),
      streaming = True,
      response_mode = ''compact''\<rparr>"

text \<open>The loop of \<open>stream_response\<close>: \<open>full_response += token\<close>.\<close>

primrec accumulate :: "string list \<Rightarrow> string \<Rightarrow> string" where
  "accumulate [] full_response = full_response"
| "accumulate (token # tokens) full_response = accumulate tokens (full_response @ token)"

text \<open>
  \<open>stream_response\<close>: the generator is the tokens it yields and the exception it raises
  after them, if any. The \<open>print\<close> of the token in the loop body is commented out in the
  source (line 89), so the loop writes nothing.
\<close>

definition stream_response :: "string list \<Rightarrow> exn option \<Rightarrow> (exn + string) \<times> event list" where
  "stream_response tokens failure =
     (case failure of
        None \<Rightarrow> (Inr (accumulate tokens []), [Print ''Bot: '', Print nl])
      | Some e \<Rightarrow> (Inl e, [Print ''Bot: '']))"

text \<open>
  What \<open>query_engine.query\<close> returns, by the attribute \<open>query_rag\<close> finds on it:
  \<open>response_gen\<close>, else \<open>response\<close>, else neither (then known by its \<open>str\<close>).
\<close>

datatype response =
    Streaming_response "string list" "exn option"
  | Plain_response string
  | Unknown_response string

definition error_msg :: "exn \<Rightarrow> string" where
  "error_msg e = ''Error processing your request: '' @ str_exn e"

text \<open>The \<open>except\<close> clause of \<open>query_rag\<close> (lines 108 to 112).\<close>

definition on_query_error :: "exn \<Rightarrow> string \<times> event list" where
  "on_query_error e =
     (error_msg e, [Log ERROR (Query_error e), Print (''Bot: '' @ error_msg e @ nl)])"

text \<open>
  \<open>query_rag\<close>. \<open>qfun\<close> is \<open>query_engine.query\<close>: from the engine, the prompt and the state
  of the services behind it, the exception raised or the response, and the state after.
\<close>

definition common_query_rag ::
  "('i query_engine \<Rightarrow> string \<Rightarrow> 'b \<Rightarrow> (exn + response) \<times> 'b) \<Rightarrow> string \<Rightarrow> 'i query_engine \<Rightarrow> 'b
     \<Rightarrow> string \<times> event list \<times> 'b" where
  "common_query_rag qfun prompt qe b =
     (let (r, b') = qfun qe prompt b
      in case r of
           Inl e \<Rightarrow>
             (let (text, evs) = on_query_error e in (text, Engine_query prompt # evs, b'))
         | Inr (Streaming_response tokens failure) \<Rightarrow>
             (case stream_response tokens failure of
                (Inr text, evs) \<Rightarrow> (text, Engine_query prompt # evs, b')
              | (Inl e, evs) \<Rightarrow>
                  (let (text, evs') = on_query_error e
                   in (text, Engine_query prompt # evs @ evs', b')))
         | Inr (Plain_response text) \<Rightarrow>
             (text, [Engine_query prompt, Print (''Bot: '' @ text @ nl)], b')
         | Inr (Unknown_response text) \<Rightarrow>
             (text, [Engine_query prompt, Print (''Bot: '' @ text @ nl)], b'))"

text \<open>The session loop of common\_rag.py with the two handlers around it (lines 123 to 131).\<close>

fun common_loop ::
  "('i query_engine \<Rightarrow> string \<Rightarrow> 'b \<Rightarrow> (exn + response) \<times> 'b) \<Rightarrow> 'i query_engine \<Rightarrow> 'b
     \<Rightarrow> user_input list \<Rightarrow> event list" where
  "common_loop qfun qe b [] = [Print (nl @ ''User: ''), Log ERROR (Fatal_error eof_error)]"
| "common_loop qfun qe b (Ctrl_C # rest) = [Print (nl @ ''User: ''), Print (nl @ ''Exiting...'' @ nl)]"
| "common_loop qfun qe b (Line query # rest) =
     Print (nl @ ''User: '') #
     (if lower query \<in> {''exit'', ''quit''} then []
      else (case common_query_rag qfun query qe b of
              (answer, evs, b') \<Rightarrow>
                evs @ [Print (''Bot: '' @ answer @ nl)] @ common_loop qfun qe b' rest))"

definition common_main ::
  "'i store_env \<Rightarrow> ('i query_engine \<Rightarrow> string \<Rightarrow> 'b \<Rightarrow> (exn + response) \<times> 'b) \<Rightarrow> 'b
     \<Rightarrow> user_input list \<Rightarrow> event list" where
  "common_main env qfun b inputs =
     (case initialize_or_load_vector_store env of
        (Inl e, evs) \<Rightarrow> evs @ [Log ERROR (Fatal_error e)]
      | (Inr index, evs) \<Rightarrow>
          (let query_engine = create_query_engine index (Some 20) (Some ''embedding'')
           in evs @
              [Print (nl @ ''RAG system ready. Type 'exit' or 'quit' to end.'' @ nl)] @
              common_loop qfun query_engine b inputs))"

section \<open>Reading a trace\<close>

text \<open>The texts handed to \<open>rag.insert\<close>, in call order.\<close>

fun insert_of :: "event \<Rightarrow> string list" where
  "insert_of (Rag_insert c) = [c]"
| "insert_of _ = []"

definition inserted :: "event list \<Rightarrow> string list" where
  "inserted tr = concat (map insert_of tr)"

text \<open>The calls of \<open>rag.query\<close>, in call order.\<close>

fun rag_query_of :: "event \<Rightarrow> (string \<times> query_param) list" where
  "rag_query_of (Rag_query q p) = [(q, p)]"
| "rag_query_of _ = []"

definition rag_queries :: "event list \<Rightarrow> (string \<times> query_param) list" where
  "rag_queries tr = concat (map rag_query_of tr)"

text \<open>The prompts handed to \<open>query_engine.query\<close>, in call order.\<close>

fun engine_query_of :: "event \<Rightarrow> string list" where
  "engine_query_of (Engine_query q) = [q]"
| "engine_query_of _ = []"

definition engine_queries :: "event list \<Rightarrow> string list" where
  "engine_queries tr = concat (map engine_query_of tr)"

text \<open>What reaches standard output, and what is logged at level \<open>ERROR\<close>.\<close>

fun is_output :: "event \<Rightarrow> bool" where
  "is_output (Print t) = True"
| "is_output Print_query_failed = True"
| "is_output _ = False"

definition stdout_of :: "event list \<Rightarrow> event list" where
  "stdout_of tr = filter is_output tr"

fun error_of :: "event \<Rightarrow> msg list" where
  "error_of (Log ERROR m) = [m]"
| "error_of _ = []"

definition errors_logged :: "event list \<Rightarrow> msg list" where
  "errors_logged tr = concat (map error_of tr)"

text \<open>
  The kinds of directory entry the loader of lightrag-demo.py tells apart: a regular file
  with a supported extension that reads as text with something other than white space in
  it, one that reads as white space only, and one whose reading raises.
\<close>

definition candidate :: "entry \<Rightarrow> bool" where
  "candidate ent \<longleftrightarrow> isfile ent \<and> is_supported_file (entry_name ent)"

definition loadable :: "entry \<Rightarrow> bool" where
  "loadable ent \<longleftrightarrow>
     candidate ent \<and> (case content ent of Inr c \<Rightarrow> strip c \<noteq> [] | Inl e \<Rightarrow> False)"

definition blank :: "entry \<Rightarrow> bool" where
  "blank ent \<longleftrightarrow>
     candidate ent \<and> (case content ent of Inr c \<Rightarrow> strip c = [] | Inl e \<Rightarrow> False)"

definition unreadable :: "entry \<Rightarrow> bool" where
  "unreadable ent \<longleftrightarrow>
     candidate ent \<and> (case content ent of Inr c \<Rightarrow> False | Inl e \<Rightarrow> True)"

definition text_of :: "entry \<Rightarrow> string" where
  "text_of ent = (case content ent of Inr c \<Rightarrow> c | Inl e \<Rightarrow> [])"

text \<open>
  A store for the examples: the \<open>rag\<close> object is the list of the texts it holds, and
  \<open>rag.insert\<close> appends to it and never raises.
\<close>

definition list_insert :: "string \<Rightarrow> string list \<Rightarrow> exn option \<times> string list" where
  "list_insert c rag = (None, rag @ [c])"

text \<open>For the examples as well: an \<open>os.makedirs\<close> that creates what it is asked for.\<close>

definition makedirs_ok :: "string \<Rightarrow> exn option" where
  "makedirs_ok directory = None"

text \<open>
  Two surroundings for \<open>initialize_or_load_vector_store\<close> in the examples: a collection
  of three records and an empty one; the index is known by the list of texts behind it.
\<close>

definition populated_env :: "string list store_env" where
  "populated_env =
     \<lparr>open_collection = None, collection_count = 3, load_data = Inr [''new text''],
      from_documents = (\<lambda>documents. Inr documents), from_vector_store = Inr [''stored'']\<rparr>"

definition empty_env :: "string list store_env" where
  "empty_env =
     \<lparr>open_collection = None, collection_count = 0, load_data = Inr [''new text''],
      from_documents = (\<lambda>documents. Inr documents), from_vector_store = Inr []\<rparr>"

text \<open>The pairs of counts that the closing line of the loader of lightrag-demo.py carries.\<close>

fun summary_of :: "event \<Rightarrow> (nat \<times> nat) list" where
  "summary_of (Log l (Load_finished n f)) = [(n, f)]"
| "summary_of _ = []"

definition summaries :: "event list \<Rightarrow> (nat \<times> nat) list" where
  "summaries tr = concat (map summary_of tr)"

text \<open>
  The loop variables before any file, and the sum of two runs of the loop: counts add up,
  traces follow one another, the \<open>rag\<close> object is the later one.
\<close>

definition zero_acc :: "'r \<Rightarrow> 'r load_acc" where
  "zero_acc rag = \<lparr>loaded_count = 0, failed_count = 0, acc_rag = rag, acc_trace = []\<rparr>"

definition plus_acc :: "'r load_acc \<Rightarrow> 'r load_acc \<Rightarrow> 'r load_acc" where
  "plus_acc s d =
     \<lparr>loaded_count = loaded_count s + loaded_count d,
      failed_count = failed_count s + failed_count d,
      acc_rag = acc_rag d,
      acc_trace = acc_trace s @ acc_trace d\<rparr>"

text \<open>
  A directory for the examples: a text file, a file of white space, a file that does not
  decode, and a file with an extension outside the list.
\<close>

definition four_files :: "entry list" where
  "four_files =
     [\<lparr>entry_name = ''notes.txt'', isfile = True, content = Inr ''hello''\<rparr>,
      \<lparr>entry_name = ''blank.md'', isfile = True, content = Inr ''  ''\<rparr>,
      \<lparr>entry_name = ''latin.txt'', isfile = True,
        content = Inl (Exn UnicodeDecodeError ''invalid start byte'')\<rparr>,
      \<lparr>entry_name = ''image.png'', isfile = True, content = Inr ''PNG''\<rparr>]"


definition one_file :: "entry list" where
  "one_file = [\<lparr>entry_name = ''notes.txt'', isfile = True, content = Inr ''hello''\<rparr>]"

definition three_files :: "entry list" where
  "three_files =
     [\<lparr>entry_name = ''a.txt'', isfile = True, content = Inr ''first''\<rparr>,
      \<lparr>entry_name = ''b.txt'', isfile = True,
        content = Inl (Exn UnicodeDecodeError ''invalid start byte'')\<rparr>,
      \<lparr>entry_name = ''c.txt'', isfile = True, content = Inr ''third''\<rparr>]"

text \<open>
  Services for the examples. A \<open>rag.query\<close> whose streaming answer yields one chunk and
  then fails, while its plain answer is whole; a \<open>rag.query\<close> that always raises; and a
  \<open>query_engine.query\<close> that raises on its first call and answers from then on (its state
  is the number of calls made).
\<close>

definition connection_lost :: exn where
  "connection_lost = Exn OtherException ''connection lost''"

definition failing_stream_query ::
  "string \<Rightarrow> query_param \<Rightarrow> unit \<Rightarrow> (exn + qresult) \<times> unit" where
  "failing_stream_query q p rag =
     (if qp_stream p = Some True then Inr (Async_gen [''Partial''] (Some connection_lost))
      else Inr (Value_result ''Complete answer''), ())"

definition dead_query :: "string \<Rightarrow> query_param \<Rightarrow> unit \<Rightarrow> (exn + qresult) \<times> unit" where
  "dead_query q p rag = (Inl connection_lost, ())"

definition flaky_engine ::
  "unit query_engine \<Rightarrow> string \<Rightarrow> nat \<Rightarrow> (exn + response) \<times> nat" where
  "flaky_engine qe prompt n =
     (if n = 0 then Inl connection_lost else Inr (Plain_response (''answer to '' @ prompt)),
      n + 1)"

section \<open>Lower case and extensions\<close>

lemma lower_char_eq_iff:
  assumes "of_char c = (n::nat)" "n < 65 \<or> (90 < n \<and> n < 97)"
  shows "lower_char x = c \<longleftrightarrow> x = c"
proof
  assume "x = c"
  with assms show "lower_char x = c"
    by (auto simp: lower_char_def Let_def)
next
  assume h: "lower_char x = c"
  show "x = c"
  proof (rule ccontr)
    assume ne: "x \<noteq> c"
    let ?m = "of_char x :: nat"
    from h ne have rng: "(65 \<le> ?m \<and> ?m \<le> 90) \<or> (192 \<le> ?m \<and> ?m \<le> 222 \<and> ?m \<noteq> 215)"
      and eq: "char_of (?m + 32) = c"
      by (auto simp: lower_char_def Let_def split: if_splits)
    from eq have "of_char (char_of (?m + 32) :: char) = (of_char c :: nat)" by simp
    then have "(?m + 32) mod 256 = n" using assms(1) by (simp add: of_char_of)
    with rng assms(2) show False by auto
  qed
qed

lemma lower_char_dot: "lower_char x = CHR ''.'' \<longleftrightarrow> x = CHR ''.''"
  by (rule lower_char_eq_iff [where n = 46]) simp_all

lemma lower_char_sep: "lower_char x = CHR ''/'' \<longleftrightarrow> x = CHR ''/''"
  by (rule lower_char_eq_iff [where n = 47]) simp_all

lemma rfind_from_lower:
  assumes "\<And>x. lower_char x = c \<longleftrightarrow> x = c"
  shows "rfind_from c (lower p) i found = rfind_from c p i found"
  using assms by (induction p arbitrary: i found) (simp_all add: lower_def)

lemma rfind_lower_dot: "rfind (lower p) (CHR ''.'') = rfind p (CHR ''.'')"
  by (simp add: rfind_def rfind_from_lower lower_char_dot)

lemma rfind_lower_sep: "rfind (lower p) (CHR ''/'') = rfind p (CHR ''/'')"
  by (simp add: rfind_def rfind_from_lower lower_char_sep)

lemma lower_eq_dot: "lower s = ''.'' \<longleftrightarrow> s = ''.''"
  by (cases s) (auto simp: lower_def lower_char_dot)

lemma take_lower: "take n (lower p) = lower (take n p)"
  by (simp add: lower_def take_map)

lemma drop_lower: "drop n (lower p) = lower (drop n p)"
  by (simp add: lower_def drop_map)

lemma skip_leading_dots_lower:
  "skip_leading_dots (lower p) i d =
     map_option (\<lambda>(a, b). (lower a, lower b)) (skip_leading_dots p i d)"
proof (induction p i d rule: skip_leading_dots.induct)
  case (1 p i d)
  show ?case
  proof (cases "i < d")
    case False
    then show ?thesis
      by (subst skip_leading_dots.simps, subst (2) skip_leading_dots.simps) simp
  next
    case lt: True
    show ?thesis
    proof (cases "take 1 (drop (nat i) p) = ''.''")
      case True
      with lt 1 show ?thesis
        by (subst skip_leading_dots.simps, subst (2) skip_leading_dots.simps)
           (simp add: lower_eq_dot take_lower drop_lower)
    next
      case False
      with lt show ?thesis
        by (subst skip_leading_dots.simps, subst (2) skip_leading_dots.simps)
           (simp add: lower_eq_dot take_lower drop_lower)
    qed
  qed
qed

text \<open>
  Lower-casing a path and splitting it is splitting it and lower-casing the two halves:
  \<open>lower\<close> moves no dot and no separator.
\<close>

lemma splitext_lower:
  "splitext (lower p) = (lower (fst (splitext p)), lower (snd (splitext p)))"
proof -
  have nil: "lower [] = []" by (simp add: lower_def)
  show ?thesis
    by (simp add: splitext_def Let_def skip_leading_dots_lower rfind_lower_dot rfind_lower_sep nil
             split: option.splits)
qed

text \<open>
  C9. \<open>is_supported_file\<close> accepts a file name exactly when the extension
  \<open>os.path.splitext\<close> gives it, put in lower case, is one of \<open>.txt\<close>, \<open>.md\<close>, \<open>.doc\<close>,
  \<open>.docx\<close>, \<open>.pdf\<close>; two names that differ only in the case of their letters get the same
  answer, as \<open>A.TXT\<close> and \<open>a.txt\<close> do.
\<close>

theorem is_supported_file_allow_list:
  "(is_supported_file filename \<longleftrightarrow>
      lower (snd (splitext filename)) \<in> {''.txt'', ''.md'', ''.doc'', ''.docx'', ''.pdf''})
   \<and> (lower other = lower filename \<longrightarrow> is_supported_file other = is_supported_file filename)
   \<and> is_supported_file ''A.TXT'' = is_supported_file ''a.txt''"
proof (intro conjI impI)
  show "is_supported_file filename \<longleftrightarrow>
      lower (snd (splitext filename)) \<in> {''.txt'', ''.md'', ''.doc'', ''.docx'', ''.pdf''}"
    by (simp add: is_supported_file_def Let_def splitext_lower SUPPORTED_FILE_EXTENSIONS_def)
  show "is_supported_file other = is_supported_file filename" if "lower other = lower filename"
    using that by (simp add: is_supported_file_def)
  have "lower ''A.TXT'' = lower ''a.txt''" by code_simp
  then show "is_supported_file ''A.TXT'' = is_supported_file ''a.txt''"
    by (simp add: is_supported_file_def)
qed

theorem is_supported_file_allow_list_witness:
  "lower ''Report.PDF'' = lower ''report.pdf''
   \<and> is_supported_file ''Report.PDF'' = is_supported_file ''report.pdf''
   \<and> is_supported_file ''report.pdf''
   \<and> lower (snd (splitext ''report.pdf'')) = ''.pdf''"
proof -
  have h: "lower ''Report.PDF'' = lower ''report.pdf''" by code_simp
  have e: "lower (snd (splitext ''report.pdf'')) = ''.pdf''" by code_simp
  from is_supported_file_allow_list [of "''report.pdf''" "''Report.PDF''"] h e
  show ?thesis by simp
qed

section \<open>The query engine of common\_rag.py\<close>

text \<open>
  C10. Whatever index, result count and retrieval mode \<open>create_query_engine\<close> is called
  with, given or left to their defaults, the engine it makes has streaming switched on and
  the response mode \<open>compact\<close>; its three parameters are the only ones, and they reach the
  engine unchanged.
\<close>

theorem create_query_engine_streaming_compact:
  "streaming (create_query_engine index k mode)
   \<and> response_mode (create_query_engine index k mode) = ''compact''
   \<and> engine_index (create_query_engine index k mode) = index
   \<and> similarity_top_k (create_query_engine index (Some n) mode) = n
   \<and> retriever_mode (create_query_engine index k (Some m)) = m"
  by (simp add: create_query_engine_def)

section \<open>The loader of lightrag-demo.py\<close>

lemma inserted_append [simp]: "inserted (a @ b) = inserted a @ inserted b"
  by (simp add: inserted_def)

lemma inserted_Nil [simp]: "inserted [] = []"
  by (simp add: inserted_def)

lemma inserted_Cons [simp]: "inserted (e # tr) = insert_of e @ inserted tr"
  by (simp add: inserted_def)

lemma summaries_append [simp]: "summaries (a @ b) = summaries a @ summaries b"
  by (simp add: summaries_def)

lemma summaries_Nil [simp]: "summaries [] = []"
  by (simp add: summaries_def)

lemma summaries_Cons [simp]: "summaries (e # tr) = summary_of e @ summaries tr"
  by (simp add: summaries_def)

text \<open>An iteration adds to the loop variables it meets; it reads only the \<open>rag\<close> object.\<close>

lemma demo_load_file_plus:
  "demo_load_file ins ent (plus_acc s d) = plus_acc s (demo_load_file ins ent d)"
  by (auto simp: demo_load_file_def on_load_error_def plus_acc_def
           split: sum.splits option.splits prod.splits)

lemma fold_load_plus:
  "fold (demo_load_file ins) ents (plus_acc s d) = plus_acc s (fold (demo_load_file ins) ents d)"
  by (induction ents arbitrary: d) (simp_all add: demo_load_file_plus)

lemma plus_acc_zero: "plus_acc (s :: 'r load_acc) (zero_acc (acc_rag s)) = s"
  by (simp add: plus_acc_def zero_acc_def)

lemma fold_load_from_zero:
  "fold (demo_load_file ins) ents (s :: 'r load_acc) =
     plus_acc s (fold (demo_load_file ins) ents (zero_acc (acc_rag s)))"
  using fold_load_plus [of ins ents s "zero_acc (acc_rag s)"] by (simp add: plus_acc_zero)

lemma demo_load_file_summaries:
  "summaries (acc_trace (demo_load_file ins ent s)) = summaries (acc_trace s)"
  by (auto simp: demo_load_file_def on_load_error_def split: sum.splits option.splits prod.splits)

lemma fold_load_summaries:
  "summaries (acc_trace (fold (demo_load_file ins) ents s)) = summaries (acc_trace s)"
  by (induction ents arbitrary: s) (simp_all add: demo_load_file_summaries)

text \<open>Whatever \<open>rag.insert\<close> does, it is called once for each loadable file, in order.\<close>

lemma demo_load_file_inserted:
  "inserted (acc_trace (demo_load_file ins ent s)) =
     inserted (acc_trace s) @ (if loadable ent then [text_of ent] else [])"
  by (auto simp: demo_load_file_def on_load_error_def loadable_def candidate_def text_of_def
           split: sum.splits option.splits prod.splits)

lemma fold_load_inserted:
  "inserted (acc_trace (fold (demo_load_file ins) ents s)) =
     inserted (acc_trace s) @ map text_of (filter loadable ents)"
  by (induction ents arbitrary: s) (simp_all add: demo_load_file_inserted)

lemma demo_load_file_counts:
  assumes "loadable ent \<longrightarrow> (\<forall>r. fst (ins (text_of ent) r) = None)"
  shows "loaded_count (demo_load_file ins ent s) = loaded_count s + (if loadable ent then 1 else 0)"
    and "failed_count (demo_load_file ins ent s) = failed_count s + (if unreadable ent then 1 else 0)"
proof -
  have ok: "ins c r \<noteq> (Some e, r')" if "loadable ent" "text_of ent = c" for c r e r'
    using assms that by (metis fst_conv option.distinct(1))
  show "loaded_count (demo_load_file ins ent s) = loaded_count s + (if loadable ent then 1 else 0)"
    using ok
    by (auto simp: demo_load_file_def on_load_error_def loadable_def candidate_def
          text_of_def split: sum.splits option.splits prod.splits) blast
  show "failed_count (demo_load_file ins ent s) = failed_count s + (if unreadable ent then 1 else 0)"
    using ok
    by (auto simp: demo_load_file_def on_load_error_def loadable_def unreadable_def candidate_def
          text_of_def split: sum.splits option.splits prod.splits)
qed

lemma fold_load_counts:
  assumes "\<forall>ent\<in>set ents. loadable ent \<longrightarrow> (\<forall>r. fst (ins (text_of ent) r) = None)"
  shows "loaded_count (fold (demo_load_file ins) ents s) =
           loaded_count s + length (filter loadable ents)
       \<and> failed_count (fold (demo_load_file ins) ents s) =
           failed_count s + length (filter unreadable ents)"
  using assms
proof (induction ents arbitrary: s)
  case Nil
  then show ?case by simp
next
  case (Cons ent ents)
  then show ?case by (simp add: demo_load_file_counts)
qed

lemma demo_load_listing:
  "demo_load_docs_from_folder ins p (Listing ents) rag =
     (let z = fold (demo_load_file ins) ents (zero_acc rag)
      in (Inr (loaded_count z),
          Log INFO (Load_started p) # acc_trace z @
            [Log INFO (Load_finished (loaded_count z) (failed_count z))],
          acc_rag z))"
proof -
  let ?s = "\<lparr>loaded_count = 0, failed_count = 0, acc_rag = rag,
             acc_trace = [Log INFO (Load_started p)]\<rparr>"
  have "fold (demo_load_file ins) ents ?s =
          plus_acc ?s (fold (demo_load_file ins) ents (zero_acc rag))"
    using fold_load_from_zero [of ins ents ?s] by simp
  then show ?thesis
    by (simp add: demo_load_docs_from_folder_def Let_def plus_acc_def)
qed

text \<open>
  C3, as the claim states it, fails. On a directory with one text file, one file of white
  space, one file that does not decode and one file with an unsupported extension, the
  pass returns 1 and its closing line carries two counts, loaded 1 and failed 1. The file
  of white space gets a warning line and the unsupported file no line at all; neither is
  counted.
\<close>

theorem demo_load_two_counters_counterexample:
  "demo_load_docs_from_folder list_insert DOCS_DIR (Listing four_files) [] =
     (Inr 1,
      [Log INFO (Load_started ''./docs''),
       Rag_insert ''hello'', Log INFO (File_loaded ''notes.txt'' 5),
       Log WARNING (File_empty ''blank.md''),
       Log WARNING (Encoding_error ''latin.txt''),
       Log INFO (Load_finished 1 1)],
      [''hello''])"
  by code_simp

text \<open>
  C3, amended. For a directory of four entries, one loadable text file, one file of white
  space, one file whose reading raises and one regular file with an unsupported extension,
  in any order, and a \<open>rag.insert\<close> that does not raise on the text file: the pass returns
  the loaded count 1, its closing line reports loaded 1 and failed 1 and nothing else, and
  the one text handed to \<open>rag.insert\<close> is the content of the text file.
\<close>

theorem demo_load_four_kinds:
  assumes "length ents = 4"
    and "filter loadable ents = [v]"
    and "filter blank ents = [em]"
    and "filter unreadable ents = [bad]"
    and "filter (\<lambda>x. isfile x \<and> \<not> is_supported_file (entry_name x)) ents = [un]"
    and "\<forall>r. fst (ins (text_of v) r) = None"
  shows "fst (demo_load_docs_from_folder ins p (Listing ents) rag) = Inr 1
       \<and> summaries (fst (snd (demo_load_docs_from_folder ins p (Listing ents) rag))) = [(1, 1)]
       \<and> inserted (fst (snd (demo_load_docs_from_folder ins p (Listing ents) rag))) = [text_of v]"
proof -
  have "\<forall>ent\<in>set ents. loadable ent \<longrightarrow> (\<forall>r. fst (ins (text_of ent) r) = None)"
  proof (intro ballI impI)
    fix ent assume "ent \<in> set ents" "loadable ent"
    then have "ent \<in> set (filter loadable ents)" by simp
    with assms(2) have "ent = v" by simp
    with assms(6) show "\<forall>r. fst (ins (text_of ent) r) = None" by simp
  qed
  from fold_load_counts [OF this, of "zero_acc rag"] assms(2,4)
  have c: "loaded_count (fold (demo_load_file ins) ents (zero_acc rag)) = 1"
          "failed_count (fold (demo_load_file ins) ents (zero_acc rag)) = 1"
    by (simp_all add: zero_acc_def)
  have i: "inserted (acc_trace (fold (demo_load_file ins) ents (zero_acc rag))) = [text_of v]"
    using assms(2) by (simp add: fold_load_inserted zero_acc_def)
  have s: "summaries (acc_trace (fold (demo_load_file ins) ents (zero_acc rag))) = []"
    by (simp add: fold_load_summaries zero_acc_def)
  show ?thesis
    by (simp add: demo_load_listing Let_def c i s)
qed

theorem demo_load_four_kinds_witness:
  "length four_files = 4
   \<and> filter loadable four_files = [four_files ! 0]
   \<and> filter blank four_files = [four_files ! 1]
   \<and> filter unreadable four_files = [four_files ! 2]
   \<and> filter (\<lambda>x. isfile x \<and> \<not> is_supported_file (entry_name x)) four_files = [four_files ! 3]
   \<and> fst (demo_load_docs_from_folder list_insert DOCS_DIR (Listing four_files) []) = Inr 1
   \<and> summaries (fst (snd (demo_load_docs_from_folder list_insert DOCS_DIR (Listing four_files) [])))
       = [(1, 1)]
   \<and> inserted (fst (snd (demo_load_docs_from_folder list_insert DOCS_DIR (Listing four_files) [])))
       = [''hello'']"
proof -
  have 1: "length four_files = 4" by code_simp
  have 2: "filter loadable four_files = [four_files ! 0]" by code_simp
  have 3: "filter blank four_files = [four_files ! 1]" by code_simp
  have 4: "filter unreadable four_files = [four_files ! 2]" by code_simp
  have 5: "filter (\<lambda>x. isfile x \<and> \<not> is_supported_file (entry_name x)) four_files =
             [four_files ! 3]"
    by code_simp
  have 6: "\<forall>r. fst (list_insert (text_of (four_files ! 0)) r) = None"
    by (simp add: list_insert_def)
  have 7: "text_of (four_files ! 0) = ''hello''" by code_simp
  from demo_load_four_kinds [where ents = four_files and v = "four_files ! 0"
      and em = "four_files ! 1" and bad = "four_files ! 2" and un = "four_files ! 3"
      and ins = list_insert and p = DOCS_DIR and rag = "[]", OF 1 2 3 4 5 6]
  have "fst (demo_load_docs_from_folder list_insert DOCS_DIR (Listing four_files) []) = Inr 1
    \<and> summaries (fst (snd (demo_load_docs_from_folder list_insert DOCS_DIR (Listing four_files) [])))
        = [(1, 1)]
    \<and> inserted (fst (snd (demo_load_docs_from_folder list_insert DOCS_DIR (Listing four_files) [])))
        = [''hello'']"
    using 7 by simp
  with 1 2 3 4 5 show ?thesis by blast
qed

section \<open>A file that does not decode\<close>

lemma on_load_error_decode:
  assumes "exn_kind e = UnicodeDecodeError"
  shows "on_load_error f e s =
     plus_acc s \<lparr>loaded_count = 0, failed_count = 1, acc_rag = acc_rag s,
                 acc_trace = [Log WARNING (Encoding_error f)]\<rparr>"
  using assms by (simp add: on_load_error_def plus_acc_def)

lemma fold_load_with_decode_failure:
  assumes "candidate bad" "content bad = Inl e" "exn_kind e = UnicodeDecodeError"
  shows "\<exists>t z. fold (demo_load_file ins) (pre @ bad # post) (zero_acc rag) =
               plus_acc (plus_acc t \<lparr>loaded_count = 0, failed_count = 1, acc_rag = acc_rag t,
                   acc_trace = [Log WARNING (Encoding_error (entry_name bad))]\<rparr>) z
             \<and> fold (demo_load_file ins) (pre @ post) (zero_acc rag) = plus_acc t z"
proof -
  let ?t = "fold (demo_load_file ins) pre (zero_acc rag)"
  let ?d = "\<lparr>loaded_count = 0, failed_count = 1, acc_rag = acc_rag ?t,
             acc_trace = [Log WARNING (Encoding_error (entry_name bad))]\<rparr>"
  let ?z = "fold (demo_load_file ins) post (zero_acc (acc_rag ?t))"
  have step: "demo_load_file ins bad ?t = plus_acc ?t ?d"
    using assms by (simp add: demo_load_file_def candidate_def on_load_error_decode)
  have "fold (demo_load_file ins) (pre @ bad # post) (zero_acc rag) =
          fold (demo_load_file ins) post (plus_acc ?t ?d)"
    by (simp add: step)
  also have "\<dots> = plus_acc (plus_acc ?t ?d) ?z"
    using fold_load_from_zero [of ins post "plus_acc ?t ?d"] by (simp add: plus_acc_def)
  finally have a: "fold (demo_load_file ins) (pre @ bad # post) (zero_acc rag) =
                     plus_acc (plus_acc ?t ?d) ?z" .
  have b: "fold (demo_load_file ins) (pre @ post) (zero_acc rag) = plus_acc ?t ?z"
    using fold_load_from_zero [of ins post ?t] by simp
  from a b show ?thesis by blast
qed

text \<open>
  C7, amended to the loader of lightrag-demo.py. A supported regular file whose reading
  raises \<open>UnicodeDecodeError\<close>, wherever it stands in the directory, changes the pass in
  two ways only: the failure count of the closing line is one higher and a warning line
  names the file. The loaded count returned, the texts handed to \<open>rag.insert\<close> and the
  \<open>rag\<close> object at the end are those of the directory without that file, so the files
  before and after it are processed as if it were not there.
\<close>

theorem demo_decode_failure_isolated:
  assumes "candidate bad" "content bad = Inl e" "exn_kind e = UnicodeDecodeError"
  shows "fst (demo_load_docs_from_folder ins p (Listing (pre @ bad # post)) rag) =
           fst (demo_load_docs_from_folder ins p (Listing (pre @ post)) rag)
       \<and> snd (snd (demo_load_docs_from_folder ins p (Listing (pre @ bad # post)) rag)) =
           snd (snd (demo_load_docs_from_folder ins p (Listing (pre @ post)) rag))
       \<and> inserted (fst (snd (demo_load_docs_from_folder ins p (Listing (pre @ bad # post)) rag))) =
           inserted (fst (snd (demo_load_docs_from_folder ins p (Listing (pre @ post)) rag)))
       \<and> summaries (fst (snd (demo_load_docs_from_folder ins p (Listing (pre @ bad # post)) rag))) =
           map (\<lambda>(n, f). (n, f + 1))
             (summaries (fst (snd (demo_load_docs_from_folder ins p (Listing (pre @ post)) rag))))
       \<and> Log WARNING (Encoding_error (entry_name bad)) \<in>
           set (fst (snd (demo_load_docs_from_folder ins p (Listing (pre @ bad # post)) rag)))"
proof -
  define A where "A = fold (demo_load_file ins) (pre @ bad # post) (zero_acc rag)"
  define B where "B = fold (demo_load_file ins) (pre @ post) (zero_acc rag)"
  from fold_load_with_decode_failure [OF assms, of ins pre post rag]
  obtain t z where
    a: "A = plus_acc (plus_acc t \<lparr>loaded_count = 0, failed_count = 1, acc_rag = acc_rag t,
             acc_trace = [Log WARNING (Encoding_error (entry_name bad))]\<rparr>) z"
    and b: "B = plus_acc t z"
    unfolding A_def B_def by blast
  have sa: "summaries (acc_trace A) = []"
    unfolding A_def by (subst fold_load_summaries) (simp add: zero_acc_def)
  have sb: "summaries (acc_trace B) = []"
    unfolding B_def by (subst fold_load_summaries) (simp add: zero_acc_def)
  have lc: "loaded_count A = loaded_count B"
    and fc: "failed_count A = failed_count B + 1"
    and rg: "acc_rag A = acc_rag B"
    and ins: "inserted (acc_trace A) = inserted (acc_trace B)"
    and mem: "Log WARNING (Encoding_error (entry_name bad)) \<in> set (acc_trace A)"
    by (simp_all add: a b plus_acc_def)
  show ?thesis
    unfolding demo_load_listing Let_def A_def [symmetric] B_def [symmetric]
    by (simp add: lc fc rg ins mem sa sb)
qed


text \<open>
  C7, as the claim states it for every loader, fails on \<open>load_docs_from_folder\<close> of
  lightrag.py: with a file that does not decode between two text files, the first text is
  inserted, the exception leaves the function, and the third file is never read. That
  loader has no failure counter.
\<close>

theorem lr_decode_failure_aborts_counterexample:
  "lr_load_docs_from_folder list_insert DOCS_DIR (Listing three_files) [] =
     (Some (Exn UnicodeDecodeError ''invalid start byte''),
      [Log INFO (Loading_docs_from ''./docs''), Rag_insert ''first''],
      [''first''])"
  by code_simp

theorem demo_decode_failure_isolated_witness:
  "candidate (three_files ! 1)
   \<and> content (three_files ! 1) = Inl (Exn UnicodeDecodeError ''invalid start byte'')
   \<and> fst (demo_load_docs_from_folder list_insert DOCS_DIR (Listing three_files) []) = Inr 2
   \<and> snd (snd (demo_load_docs_from_folder list_insert DOCS_DIR (Listing three_files) [])) =
       [''first'', ''third'']
   \<and> inserted (fst (snd (demo_load_docs_from_folder list_insert DOCS_DIR (Listing three_files) []))) =
       [''first'', ''third'']
   \<and> summaries (fst (snd (demo_load_docs_from_folder list_insert DOCS_DIR (Listing three_files) []))) =
       [(2, 1)]"
proof -
  let ?e = "Exn UnicodeDecodeError ''invalid start byte''"
  let ?rest = "[three_files ! 0] @ [three_files ! 2]"
  have 1: "candidate (three_files ! 1)" by code_simp
  have 2: "content (three_files ! 1) = Inl ?e" by code_simp
  have 3: "exn_kind ?e = UnicodeDecodeError" by simp
  have split: "three_files = [three_files ! 0] @ three_files ! 1 # [three_files ! 2]"
    by (simp add: three_files_def)
  have r: "fst (demo_load_docs_from_folder list_insert DOCS_DIR (Listing ?rest) []) = Inr 2"
    by code_simp
  have g: "snd (snd (demo_load_docs_from_folder list_insert DOCS_DIR (Listing ?rest) [])) =
             [''first'', ''third'']"
    by code_simp
  have i: "inserted (fst (snd (demo_load_docs_from_folder list_insert DOCS_DIR (Listing ?rest) []))) =
             [''first'', ''third'']"
    by code_simp
  have s: "summaries (fst (snd (demo_load_docs_from_folder list_insert DOCS_DIR (Listing ?rest) []))) =
             [(2, 0)]"
    by code_simp
  from demo_decode_failure_isolated [OF 1 2 3, of list_insert DOCS_DIR "[three_files ! 0]"
      "[three_files ! 2]" "[]"]
  have "fst (demo_load_docs_from_folder list_insert DOCS_DIR (Listing three_files) []) = Inr 2
   \<and> snd (snd (demo_load_docs_from_folder list_insert DOCS_DIR (Listing three_files) [])) =
       [''first'', ''third'']
   \<and> inserted (fst (snd (demo_load_docs_from_folder list_insert DOCS_DIR (Listing three_files) []))) =
       [''first'', ''third'']
   \<and> summaries (fst (snd (demo_load_docs_from_folder list_insert DOCS_DIR (Listing three_files) []))) =
       [(2, 1)]"
    unfolding split [symmetric] r g i s by simp
  with 1 2 show ?thesis by blast
qed

section \<open>An empty or missing document directory\<close>






section \<open>Building or loading the index\<close>

text \<open>
  C5. Once the client and the collection are open, \<open>initialize_or_load_vector_store\<close>
  asks for the record count exactly once, before anything else, and branches on it. When
  the count is zero it calls \<open>load_data\<close> and hands every document loaded to
  \<open>from_documents\<close>, whose index it returns. When the count is not zero it returns the
  index of \<open>from_vector_store\<close> and makes no other call: no document is loaded.
\<close>

theorem initialize_or_load_branches:
  assumes "open_collection env = None"
  shows "count_list (snd (initialize_or_load_vector_store env)) Collection_count = 1
    \<and> (collection_count env = 0 \<longrightarrow>
         (\<forall>documents. load_data env = Inr documents \<longrightarrow>
            initialize_or_load_vector_store env =
              (from_documents env documents,
               [Collection_count, Log INFO Store_empty, Load_data, From_documents documents])))
    \<and> (collection_count env \<noteq> 0 \<longrightarrow>
         initialize_or_load_vector_store env =
           (from_vector_store env, [Collection_count, Log INFO Loading_existing, From_vector_store]))"
  using assms
  by (auto simp: initialize_or_load_vector_store_def split: sum.splits)

theorem initialize_or_load_branches_witness:
  "open_collection empty_env = None \<and> collection_count empty_env = 0
   \<and> initialize_or_load_vector_store empty_env =
       (Inr [''new text''],
        [Collection_count, Log INFO Store_empty, Load_data, From_documents [''new text'']])
   \<and> open_collection populated_env = None \<and> collection_count populated_env \<noteq> 0
   \<and> initialize_or_load_vector_store populated_env =
       (Inr [''stored''], [Collection_count, Log INFO Loading_existing, From_vector_store])
   \<and> count_list (snd (initialize_or_load_vector_store populated_env)) Collection_count = 1"
proof -
  have e: "open_collection empty_env = None" "collection_count empty_env = 0"
    "load_data empty_env = Inr [''new text'']"
    "from_documents empty_env [''new text''] = Inr [''new text'']"
    by (simp_all add: empty_env_def)
  have p: "open_collection populated_env = None" "collection_count populated_env \<noteq> 0"
    "from_vector_store populated_env = Inr [''stored'']"
    by (simp_all add: populated_env_def)
  from initialize_or_load_branches [OF e(1)] initialize_or_load_branches [OF p(1)] e p
  show ?thesis by simp
qed

section \<open>Ingestion at start\<close>

lemma lr_load_loop_all:
  assumes "\<forall>ent\<in>set ents. isfile ent \<longrightarrow> \<not> isl (content ent)"
    and "\<forall>c r. fst (ins c r) = None"
  shows "fst (lr_load_loop ins ents rag) = None
       \<and> inserted (fst (snd (lr_load_loop ins ents rag))) = map text_of (filter isfile ents)"
  using assms(1)
proof (induction ents arbitrary: rag)
  case Nil
  then show ?case by simp
next
  case (Cons ent ents)
  show ?case
  proof (cases "isfile ent")
    case False
    with Cons show ?thesis by simp
  next
    case True
    with Cons.prems obtain c where c: "content ent = Inr c"
      by (cases "content ent") auto
    obtain rag' where i: "ins c rag = (None, rag')"
      using assms(2) by (metis fst_conv prod.collapse)
    from Cons.IH [of rag'] Cons.prems
    have ih: "fst (lr_load_loop ins ents rag') = None"
      "inserted (fst (snd (lr_load_loop ins ents rag'))) = map text_of (filter isfile ents)"
      by simp_all
    obtain r evs rag'' where l: "lr_load_loop ins ents rag' = (r, evs, rag'')"
      by (cases "lr_load_loop ins ents rag'") auto
    show ?thesis
      using True c i ih by (simp add: text_of_def l)
  qed
qed

lemma demo_main_startup_inserted:
  assumes "working = Missing \<longrightarrow> makedirs WORKING_DIR = None"
  shows "inserted (snd (demo_main_startup ins makedirs working (Listing ents) (Some rag))) =
     map text_of (filter loadable ents)"
proof -
  have d: "ensure_directory makedirs DOCS_DIR (Listing ents) = (Inr (Listing ents), [])"
    by (simp add: ensure_directory_def)
  obtain working' evs1 where
    w: "ensure_directory makedirs WORKING_DIR working = (Inr working', evs1)"
      "inserted evs1 = []"
    using assms by (cases "working = Missing") (simp_all add: ensure_directory_def)
  have l: "inserted (fst (snd (demo_load_docs_from_folder ins DOCS_DIR (Listing ents) rag))) =
             map text_of (filter loadable ents)"
    by (simp add: demo_load_listing Let_def fold_load_inserted zero_acc_def)
  obtain n evs2 rag' where
    r: "demo_load_docs_from_folder ins DOCS_DIR (Listing ents) rag = (Inr n, evs2, rag')"
    by (simp add: demo_load_listing Let_def)
  from l r have i: "inserted evs2 = map text_of (filter loadable ents)" by simp
  show ?thesis
    by (simp add: demo_main_startup_def ensure_directories_def d w r i)
qed

text \<open>
  C1, amended. A start of common\_rag.py against a collection that holds records makes no
  \<open>load_data\<close> and no \<open>from_documents\<close> call and returns the index bound to the store
  by \<open>from_vector_store\<close>. The starts of lightrag-demo.py and lightrag.py do not look at
  the store. In lightrag-demo.py, when \<open>ensure_directories\<close> raises nothing and
  \<open>initialize_rag\<close> has returned the \<open>rag\<close> object, \<open>main\<close> calls \<open>rag.insert\<close> once for
  each loadable file of the document directory, whatever the \<open>rag\<close> object holds and
  whatever \<open>rag.insert\<close> does. In lightrag.py, when every regular file of the directory
  reads as text and \<open>rag.insert\<close> does not raise, \<open>load_docs_from_folder\<close> calls
  \<open>rag.insert\<close> once for each regular file, whatever the \<open>rag\<close> object holds.
\<close>

theorem ingestion_at_start:
  "(open_collection env = None \<and> collection_count env > 0 \<longrightarrow>
      fst (initialize_or_load_vector_store env) = from_vector_store env
      \<and> Load_data \<notin> set (snd (initialize_or_load_vector_store env))
      \<and> (\<forall>documents. From_documents documents \<notin> set (snd (initialize_or_load_vector_store env))))
   \<and> ((working = Missing \<longrightarrow> makedirs WORKING_DIR = None) \<longrightarrow>
        inserted (snd (demo_main_startup ins makedirs working (Listing ents) (Some rag))) =
          map text_of (filter loadable ents))
   \<and> ((\<forall>ent\<in>set ents. isfile ent \<longrightarrow> \<not> isl (content ent)) \<and> (\<forall>c r. fst (ins c r) = None) \<longrightarrow>
        inserted (fst (snd (lr_load_docs_from_folder ins p (Listing ents) rag))) =
          map text_of (filter isfile ents))"
proof (intro conjI impI)
  assume "open_collection env = None \<and> collection_count env > 0"
  then have i: "initialize_or_load_vector_store env =
      (from_vector_store env, [Collection_count, Log INFO Loading_existing, From_vector_store])"
    by (simp add: initialize_or_load_vector_store_def)
  show "fst (initialize_or_load_vector_store env) = from_vector_store env"
    by (simp add: i)
  show "Load_data \<notin> set (snd (initialize_or_load_vector_store env))"
    by (simp add: i)
  show "\<forall>documents. From_documents documents \<notin> set (snd (initialize_or_load_vector_store env))"
    by (simp add: i)
next
  assume "working = Missing \<longrightarrow> makedirs WORKING_DIR = None"
  then show "inserted (snd (demo_main_startup ins makedirs working (Listing ents) (Some rag))) =
       map text_of (filter loadable ents)"
    by (rule demo_main_startup_inserted)
next
  assume "(\<forall>ent\<in>set ents. isfile ent \<longrightarrow> \<not> isl (content ent)) \<and> (\<forall>c r. fst (ins c r) = None)"
  then have a: "inserted (fst (snd (lr_load_loop ins ents rag))) = map text_of (filter isfile ents)"
    using lr_load_loop_all [of ents ins rag] by blast
  obtain r evs rag' where l: "lr_load_loop ins ents rag = (r, evs, rag')"
    by (cases "lr_load_loop ins ents rag") auto
  from a show "inserted (fst (snd (lr_load_docs_from_folder ins p (Listing ents) rag))) =
          map text_of (filter isfile ents)"
    by (simp add: lr_load_docs_from_folder_def l)
qed

text \<open>
  C1, as the claim states it for every start, fails on lightrag-demo.py: started with a
  store that already holds the text of \<open>notes.txt\<close>, \<open>main\<close> calls \<open>rag.insert\<close> with
  that text again.
\<close>

theorem demo_start_reingests_counterexample:
  "demo_main_startup list_insert makedirs_ok (Listing []) (Listing one_file) (Some [''hello'']) =
     (Startup_ready 1 [''hello'', ''hello''],
      [Log INFO Initializing, Log INFO (Load_started ''./docs''),
       Rag_insert ''hello'', Log INFO (File_loaded ''notes.txt'' 5),
       Log INFO (Load_finished 1 0)])"
  by code_simp

theorem ingestion_at_start_witness:
  "open_collection populated_env = None \<and> collection_count populated_env > 0
   \<and> fst (initialize_or_load_vector_store populated_env) = Inr [''stored'']
   \<and> Load_data \<notin> set (snd (initialize_or_load_vector_store populated_env))
   \<and> makedirs_ok WORKING_DIR = None
   \<and> inserted (snd (demo_main_startup list_insert makedirs_ok Missing (Listing one_file)
         (Some [''hello''])))
       = [''hello'']
   \<and> inserted (fst (snd (lr_load_docs_from_folder list_insert DOCS_DIR (Listing one_file) [''hello''])))
       = [''hello'']"
proof -
  have p: "open_collection populated_env = None \<and> collection_count populated_env > 0"
    "from_vector_store populated_env = Inr [''stored'']"
    by (simp_all add: populated_env_def)
  have k: "makedirs_ok WORKING_DIR = None"
    by (simp add: makedirs_ok_def)
  have f: "map text_of (filter loadable one_file) = [''hello'']"
    "map text_of (filter isfile one_file) = [''hello'']"
    by code_simp+
  have r: "(\<forall>ent\<in>set one_file. isfile ent \<longrightarrow> \<not> isl (content ent))
           \<and> (\<forall>c r. fst (list_insert c r) = None)"
    by (simp add: one_file_def list_insert_def)
  from ingestion_at_start [where env = populated_env and ins = list_insert and working = Missing
      and makedirs = makedirs_ok and ents = one_file and rag = "[''hello'']" and p = DOCS_DIR]
    p k f r
  show ?thesis by simp
qed

section \<open>Streaming the response\<close>

lemma accumulate_concat: "accumulate tokens full_response = full_response @ concat tokens"
  by (induction tokens arbitrary: full_response) simp_all

text \<open>
  C4. \<open>stream_response\<close> returns the concatenation of the tokens, \<open>The cat sat.\<close> for
  \<open>The \<close>, \<open>cat \<close>, \<open>sat.\<close>, but forwards none of them: what it writes is the prefix
  \<open>Bot: \<close> and a line end, whatever the tokens are.
\<close>

theorem stream_response_forwards_no_token:
  "stream_response [''The '', ''cat '', ''sat.''] None =
     (Inr ''The cat sat.'', [Print ''Bot: '', Print nl])
   \<and> fst (stream_response tokens None) = Inr (concat tokens)
   \<and> snd (stream_response tokens None) = [Print ''Bot: '', Print nl]"
  by (simp add: stream_response_def accumulate_concat)

section \<open>Failing queries\<close>

text \<open>
  C2, as the claim states it, fails. In lightrag-demo.py a stream that yields \<open>Partial\<close>
  and then raises is consumed inside \<open>print_stream\<close>, whose own handler logs the
  exception: \<open>query_rag_async\<close> makes no second call to \<open>rag.query\<close>, and \<open>Partial\<close> is
  all that was written, although the plain query would have answered.
\<close>

theorem stream_failure_no_fallback_counterexample:
  "demo_query_rag_async failing_stream_query ''q'' () =
     ([Rag_query ''q'' \<lparr>qp_mode = ''global'', qp_stream = Some True\<rparr>,
       Print ''Partial'',
       Log ERROR (Stream_print_error (Exn OtherException ''connection lost''))], ())"
  by code_simp


lemma engine_queries_append [simp]: "engine_queries (a @ b) = engine_queries a @ engine_queries b"
  by (simp add: engine_queries_def)

lemma engine_queries_Nil [simp]: "engine_queries [] = []"
  by (simp add: engine_queries_def)

lemma engine_queries_Cons [simp]: "engine_queries (e # tr) = engine_query_of e @ engine_queries tr"
  by (simp add: engine_queries_def)

lemma demo_query_rag_async_fallback:
  assumes "rq query \<lparr>qp_mode = ''global'', qp_stream = Some True\<rparr> rag = (Inl e, rag1)"
    and "rq query \<lparr>qp_mode = ''global'', qp_stream = None\<rparr> rag1 = (resp2, rag2)"
  shows "demo_query_rag_async rq query rag =
     ([Rag_query query \<lparr>qp_mode = ''global'', qp_stream = Some True\<rparr>,
       Log ERROR (Query_failed e), Log INFO Trying_non_stream,
       Rag_query query \<lparr>qp_mode = ''global'', qp_stream = None\<rparr>] @
      (case resp2 of
         Inr r \<Rightarrow> [Print (str_result r @ nl)]
       | Inl e2 \<Rightarrow> [Log ERROR (Non_stream_failed e2), Print_query_failed]),
      rag2)"
  using assms by (simp add: demo_query_rag_async_def)


lemma common_query_rag_raises:
  assumes "qfun qe prompt b = (Inl e, b')"
  shows "common_query_rag qfun prompt qe b =
     (error_msg e,
      [Engine_query prompt, Log ERROR (Query_error e), Print (''Bot: '' @ error_msg e @ nl)],
      b')"
  using assms by (simp add: common_query_rag_def on_query_error_def)

lemma common_query_rag_stream_fails:
  assumes "qfun qe prompt b = (Inr (Streaming_response tokens (Some e)), b')"
  shows "common_query_rag qfun prompt qe b =
     (error_msg e,
      [Engine_query prompt, Print ''Bot: '', Log ERROR (Query_error e),
       Print (''Bot: '' @ error_msg e @ nl)],
      b')"
  using assms by (simp add: common_query_rag_def on_query_error_def stream_response_def)

lemma common_query_rag_one_call:
  "engine_queries (fst (snd (common_query_rag qfun prompt qe b))) = [prompt]"
  by (auto simp: common_query_rag_def on_query_error_def stream_response_def Let_def
        split: prod.splits sum.splits response.splits option.splits)




lemma rag_queries_simps [simp]:
  "rag_queries [] = []"
  "rag_queries (e # tr) = rag_query_of e @ rag_queries tr"
  "rag_queries (a @ b) = rag_queries a @ rag_queries b"
  by (simp_all add: rag_queries_def)

lemma stdout_of_simps [simp]:
  "stdout_of [] = []"
  "stdout_of (e # tr) = (if is_output e then e # stdout_of tr else stdout_of tr)"
  "stdout_of (a @ b) = stdout_of a @ stdout_of b"
  by (simp_all add: stdout_of_def)

lemma errors_logged_simps [simp]:
  "errors_logged [] = []"
  "errors_logged (e # tr) = error_of e @ errors_logged tr"
  "errors_logged (a @ b) = errors_logged a @ errors_logged b"
  by (simp_all add: errors_logged_def)

lemma errors_logged_map_Print [simp]: "errors_logged (map Print chunks) = []"
  by (induction chunks) simp_all

text \<open>
  C2, amended. In lightrag-demo.py, when the streaming call to \<open>rag.query\<close> raises,
  \<open>query_rag_async\<close> calls \<open>rag.query\<close> exactly once more, with the same query and no
  \<open>stream\<close> argument. If that call returns, its result is the one thing printed; if it
  raises too, the fixed failure notice is the one thing printed, both exceptions are logged
  and no further call is made. In common\_rag.py, when \<open>query_engine.query\<close> raises or the
  stream fails part-way, \<open>query_rag\<close> returns the text of one error message, logs the
  exception once, and has called the engine once: there is no fallback.
\<close>

theorem query_failure_one_fallback:
  "(rq query \<lparr>qp_mode = ''global'', qp_stream = Some True\<rparr> rag = (Inl e, rag1) \<longrightarrow>
      rag_queries (fst (demo_query_rag_async rq query rag)) =
        [(query, \<lparr>qp_mode = ''global'', qp_stream = Some True\<rparr>),
         (query, \<lparr>qp_mode = ''global'', qp_stream = None\<rparr>)]
      \<and> (\<forall>r rag2. rq query \<lparr>qp_mode = ''global'', qp_stream = None\<rparr> rag1 = (Inr r, rag2) \<longrightarrow>
            stdout_of (fst (demo_query_rag_async rq query rag)) = [Print (str_result r @ nl)])
      \<and> (\<forall>e2 rag2. rq query \<lparr>qp_mode = ''global'', qp_stream = None\<rparr> rag1 = (Inl e2, rag2) \<longrightarrow>
            stdout_of (fst (demo_query_rag_async rq query rag)) = [Print_query_failed]
            \<and> errors_logged (fst (demo_query_rag_async rq query rag)) =
                [Query_failed e, Non_stream_failed e2]))
   \<and> (fst (qfun qe prompt b) = Inl e'
        \<or> (\<exists>tokens. fst (qfun qe prompt b) = Inr (Streaming_response tokens (Some e'))) \<longrightarrow>
      fst (common_query_rag qfun prompt qe b) = error_msg e'
      \<and> engine_queries (fst (snd (common_query_rag qfun prompt qe b))) = [prompt]
      \<and> errors_logged (fst (snd (common_query_rag qfun prompt qe b))) = [Query_error e'])"
proof (intro conjI impI)
  assume a: "rq query \<lparr>qp_mode = ''global'', qp_stream = Some True\<rparr> rag = (Inl e, rag1)"
  obtain resp2 rag2 where
    b: "rq query \<lparr>qp_mode = ''global'', qp_stream = None\<rparr> rag1 = (resp2, rag2)"
    by (cases "rq query \<lparr>qp_mode = ''global'', qp_stream = None\<rparr> rag1") auto
  note f = demo_query_rag_async_fallback [where rq = rq and query = query and rag = rag, OF a b]
  show "rag_queries (fst (demo_query_rag_async rq query rag)) =
        [(query, \<lparr>qp_mode = ''global'', qp_stream = Some True\<rparr>),
         (query, \<lparr>qp_mode = ''global'', qp_stream = None\<rparr>)]"
    by (simp add: f split: sum.splits)
  show "\<forall>r rag2. rq query \<lparr>qp_mode = ''global'', qp_stream = None\<rparr> rag1 = (Inr r, rag2) \<longrightarrow>
            stdout_of (fst (demo_query_rag_async rq query rag)) = [Print (str_result r @ nl)]"
    using b by (auto simp: f)
  show "\<forall>e2 rag2. rq query \<lparr>qp_mode = ''global'', qp_stream = None\<rparr> rag1 = (Inl e2, rag2) \<longrightarrow>
            stdout_of (fst (demo_query_rag_async rq query rag)) = [Print_query_failed]
            \<and> errors_logged (fst (demo_query_rag_async rq query rag)) =
                [Query_failed e, Non_stream_failed e2]"
    using b by (auto simp: f)
next
  assume h: "fst (qfun qe prompt b) = Inl e'
        \<or> (\<exists>tokens. fst (qfun qe prompt b) = Inr (Streaming_response tokens (Some e')))"
  obtain r b' where q: "qfun qe prompt b = (r, b')"
    by (cases "qfun qe prompt b") auto
  from h q consider "qfun qe prompt b = (Inl e', b')"
    | tokens where "qfun qe prompt b = (Inr (Streaming_response tokens (Some e')), b')"
    by auto
  then have c: "fst (common_query_rag qfun prompt qe b) = error_msg e'
      \<and> errors_logged (fst (snd (common_query_rag qfun prompt qe b))) = [Query_error e']"
  proof cases
    case 1
    then show ?thesis by (simp add: common_query_rag_raises)
  next
    case 2
    then show ?thesis by (simp add: common_query_rag_stream_fails)
  qed
  from c show "fst (common_query_rag qfun prompt qe b) = error_msg e'" by simp
  show "engine_queries (fst (snd (common_query_rag qfun prompt qe b))) = [prompt]"
    by (rule common_query_rag_one_call)
  from c show "errors_logged (fst (snd (common_query_rag qfun prompt qe b))) = [Query_error e']"
    by simp
qed

theorem query_failure_one_fallback_witness:
  "dead_query ''q'' \<lparr>qp_mode = ''global'', qp_stream = Some True\<rparr> () = (Inl connection_lost, ())
   \<and> rag_queries (fst (demo_query_rag_async dead_query ''q'' ())) =
        [(''q'', \<lparr>qp_mode = ''global'', qp_stream = Some True\<rparr>),
         (''q'', \<lparr>qp_mode = ''global'', qp_stream = None\<rparr>)]
   \<and> stdout_of (fst (demo_query_rag_async dead_query ''q'' ())) = [Print_query_failed]
   \<and> fst (flaky_engine (create_query_engine () None None) ''q'' 0) = Inl connection_lost
   \<and> fst (common_query_rag flaky_engine ''q'' (create_query_engine () None None) 0) =
       error_msg connection_lost
   \<and> engine_queries (fst (snd (common_query_rag flaky_engine ''q''
         (create_query_engine () None None) 0))) = [''q'']"
proof -
  define qe where "qe = create_query_engine () None None"
  have d: "dead_query ''q'' p () = (Inl connection_lost, ())" for p
    by (simp add: dead_query_def)
  have f: "fst (flaky_engine qe ''q'' 0) = Inl connection_lost"
    by (simp add: flaky_engine_def)
  from query_failure_one_fallback [of dead_query "''q''" "()" connection_lost "()"
      flaky_engine qe "''q''" 0 connection_lost] d f
  show ?thesis unfolding qe_def by simp
qed



end
